theory Spec2Isabelle
  imports Complex_Main
begin

section \<open>Errors and decisions\<close>

text \<open>
  Go's \<open>error\<close> values that \<open>ilp.go\<close> names or can receive. The two sentinels of the
  package are \<open>INITIAL_RELAXATION_NOT_FEASIBLE\<close> and \<open>NO_INTEGER_FEASIBLE_SOLUTION\<close>;
  the \<open>Lp...\<close> constructors are the sentinels of gonum's \<open>lp\<close> package
  (\<open>lp.ErrInfeasible\<close>, \<open>lp.ErrSingular\<close>, ...); \<open>ContextCanceled\<close> and
  \<open>ContextDeadlineExceeded\<close> are what \<open>ctx.Err()\<close> returns once the context is done.
  Go compares such sentinels by identity, so distinct constructors are distinct errors.
\<close>

datatype goError =
    INITIAL_RELAXATION_NOT_FEASIBLE
  | NO_INTEGER_FEASIBLE_SOLUTION
  | LpErrInfeasible
  | LpErrSingular
  | LpErrUnbounded
  | LpErrBland
  | LpErrLinSolve
  | LpErrZeroColumn
  | LpErrZeroRow
  | ContextCanceled
  | ContextDeadlineExceeded
  | OtherError string

text \<open>
  Modelled from the spec: the type \<open>bnbDecision\<close> and its constants are declared outside
  \<open>ilp.go\<close>. The file names two of them, \<open>SUBPROBLEM_IS_DEGENERATE\<close> and
  \<open>SUBPROBLEM_NOT_FEASIBLE\<close>, the spec's prune-as-degenerate and prune-as-infeasible
  decisions; \<open>OtherDecision\<close> stands for the decisions the file does not name (pruning
  by bound, a new incumbent, branching).
\<close>

datatype bnbDecision =
    SUBPROBLEM_IS_DEGENERATE
  | SUBPROBLEM_NOT_FEASIBLE
  | OtherDecision nat

text \<open>The map literal \<open>expectedFailures\<close> of \<open>ilp.go\<close>, entry by entry.\<close>

definition expectedFailures :: "goError \<rightharpoonup> bnbDecision" where
  "expectedFailures =
     [LpErrInfeasible \<mapsto> SUBPROBLEM_IS_DEGENERATE,
      LpErrSingular \<mapsto> SUBPROBLEM_NOT_FEASIBLE]"

section \<open>Problems, subproblems and solutions\<close>

text \<open>
  The numeric data is only stored and handed on by this file, so \<open>float64\<close> is the type
  parameter \<open>'f\<close> and \<open>*mat.Dense\<close> the type parameter \<open>'m\<close>. \<open>BranchHeuristic\<close> is
  an integer-valued enumeration whose zero value is \<open>maxFun\<close>.
\<close>

type_synonym BranchHeuristic = int

record ('f, 'm) milpProblem =
  c :: "'f list"
  A :: 'm
  b :: "'f list"
  G :: 'm
  h :: "'f list"
  integralityConstraints :: "bool list"
  branchingHeuristic :: BranchHeuristic

text \<open>
  Modelled from the spec: \<open>bnbConstraint\<close> is declared outside \<open>ilp.go\<close>. A bound
  constraint is a variable index, a threshold value and a direction.
\<close>

datatype direction = AtMost | AtLeast

record 'f bnbConstraint =
  branchedVariable :: nat
  threshold :: 'f
  boundDirection :: direction

text \<open>
  The struct \<open>subProblem\<close> is declared outside \<open>ilp.go\<close>; its fields are the ones the
  struct literal in \<open>toInitialSubProblem\<close> sets.
\<close>

record ('f, 'm) subProblem =
  id' :: int
  c :: "'f list"
  A :: 'm
  b :: "'f list"
  G :: 'm
  h :: "'f list"
  integralityConstraints :: "bool list"
  bnbConstraints :: "'f bnbConstraint list"

text \<open>
  Modelled from the spec: the struct \<open>solution\<close> is declared outside \<open>ilp.go\<close>, which
  reads its fields \<open>x\<close> and \<open>err\<close>. A solution is an assignment vector, its objective
  value and an optional failure.
\<close>

record 'f solution =
  x :: "'f list"
  z :: 'f
  err :: "goError option"

record 'f milpSolution =
  solution :: "'f solution"

text \<open>Go's zero values: \<open>var val solution\<close> and \<open>milpSolution{}\<close>.\<close>

definition zeroSolution :: "('f::zero) solution" where
  "zeroSolution = \<lparr>x = [], z = 0, err = None\<rparr>"

definition zeroMilpSolution :: "('f::zero) milpSolution" where
  "zeroMilpSolution = \<lparr>solution = zeroSolution\<rparr>"

definition toInitialSubProblem :: "('f, 'm) milpProblem \<Rightarrow> ('f, 'm) subProblem" where
  "toInitialSubProblem p =
     \<lparr>id' = 0,
      c = milpProblem.c p,
      A = milpProblem.A p,
      b = milpProblem.b p,
      G = milpProblem.G p,
      h = milpProblem.h p,
      integralityConstraints = milpProblem.integralityConstraints p,
      bnbConstraints = []\<rparr>"


section \<open>The collaborators of \<open>solve\<close>\<close>

text \<open>
  Modelled from the spec: \<open>feasibleForIP\<close> is declared outside \<open>ilp.go\<close>. A vector is
  integer-feasible when every flagged variable's value is within numerical tolerance of an
  integer; the tolerance is a parameter. \<open>solve\<close> below takes the check as an argument,
  and this instance of it drives \<open>solve\<close> on concrete inputs.
\<close>

definition feasibleForIP :: "real \<Rightarrow> bool list \<Rightarrow> real list \<Rightarrow> bool" where
  "feasibleForIP tolerance flags values =
     list_all (\<lambda>(flag, v). if flag then \<bar>v - of_int (round v)\<bar> \<le> tolerance else True)
       (zip flags values)"

text \<open>
  Modelled from the spec: the enumeration tree and its search (\<open>newEnumerationTree\<close>,
  \<open>startSearch\<close>) are declared outside \<open>ilp.go\<close>. \<open>deriveChild\<close> appends one bound
  constraint and gives the child a fresh identifier. \<open>searchLoop\<close> is the per-node
  decision procedure of the orchestrator, run over a first-in first-out queue that starts
  with exactly the root and an absent incumbent: an expected failure of the relaxation
  prunes the node, an unexpected one aborts the search and is surfaced as the failure
  marker of the result, a relaxed objective no better than the incumbent's prunes the
  node, an integer-feasible relaxed solution replaces the incumbent when there is none or
  it is strictly better, and any other node is replaced by its two children. The
  relaxation solver and the branching heuristic (which yields the two bound constraints on
  the variable it selects) are arguments. The nodes are processed one at a time, the
  worker count is not used, and the notifications to the instrumentation are left out.
  The search is complete when the queue is empty; \<open>None\<close> is a search that is still
  running when the fuel is used up.
\<close>

definition deriveChild ::
  "('f, 'm) subProblem \<Rightarrow> 'f bnbConstraint \<Rightarrow> int \<Rightarrow> ('f, 'm) subProblem" where
  "deriveChild parent constraint freshId =
     parent\<lparr>id' := freshId, bnbConstraints := bnbConstraints parent @ [constraint]\<rparr>"

fun searchLoop ::
  "(('f::{zero,ord}, 'm) subProblem \<Rightarrow> goError + 'f solution)
   \<Rightarrow> ('f list \<Rightarrow> bool list \<Rightarrow> 'f bnbConstraint \<times> 'f bnbConstraint)
   \<Rightarrow> (bool list \<Rightarrow> 'f list \<Rightarrow> bool)
   \<Rightarrow> nat \<Rightarrow> ('f, 'm) subProblem list \<Rightarrow> int \<Rightarrow> 'f solution option
   \<Rightarrow> 'f solution option option" where
  "searchLoop solveRelaxation branchOn feasible fuel [] nextId incumbent = Some incumbent"
| "searchLoop solveRelaxation branchOn feasible 0 (node # queue) nextId incumbent = None"
| "searchLoop solveRelaxation branchOn feasible (Suc fuel) (node # queue) nextId incumbent =
     (case solveRelaxation node of
        Inl failure \<Rightarrow>
          (if failure \<in> dom expectedFailures
           then searchLoop solveRelaxation branchOn feasible fuel queue nextId incumbent
           else Some (Some (zeroSolution\<lparr>err := Some failure\<rparr>)))
      | Inr relaxed \<Rightarrow>
          (if (case incumbent of None \<Rightarrow> False | Some best \<Rightarrow> z best \<le> z relaxed)
           then searchLoop solveRelaxation branchOn feasible fuel queue nextId incumbent
           else if feasible (subProblem.integralityConstraints node) (x relaxed)
           then searchLoop solveRelaxation branchOn feasible fuel queue nextId
                  (case incumbent of
                     None \<Rightarrow> Some relaxed
                   | Some best \<Rightarrow> if z relaxed < z best then Some relaxed else Some best)
           else
             (case branchOn (x relaxed) (subProblem.integralityConstraints node) of
                (lower, upper) \<Rightarrow>
                  searchLoop solveRelaxation branchOn feasible fuel
                    (queue @ [deriveChild node lower nextId,
                              deriveChild node upper (nextId + 1)])
                    (nextId + 2) incumbent)))"

definition startSearch ::
  "(('f::{zero,ord}, 'm) subProblem \<Rightarrow> goError + 'f solution)
   \<Rightarrow> ('f list \<Rightarrow> bool list \<Rightarrow> 'f bnbConstraint \<times> 'f bnbConstraint)
   \<Rightarrow> (bool list \<Rightarrow> 'f list \<Rightarrow> bool)
   \<Rightarrow> nat \<Rightarrow> ('f, 'm) subProblem \<Rightarrow> int \<Rightarrow> 'f solution option option" where
  "startSearch solveRelaxation branchOn feasible fuel rootNode workers =
     searchLoop solveRelaxation branchOn feasible fuel [rootNode] 1 None"

section \<open>\<open>solve\<close>\<close>

text \<open>
  A call of \<open>solve\<close> either panics or returns a solution and an error (\<open>None\<close> is Go's
  \<open>nil\<close>). \<open>Panic\<close> carries the message of an explicit \<open>panic\<close>; \<open>NilDereference\<close> is
  the run-time panic of reading through a \<open>nil\<close> value, and names the value that was
  read: the context in \<open>ctx.Err()\<close> or the incumbent pointer.
\<close>

datatype site = ContextValue | IncumbentPointer

datatype panic = Panic string | NilDereference site

definition deref :: "site \<Rightarrow> 'a option \<Rightarrow> panic + 'a" where
  "deref place pointer =
     (case pointer of None \<Rightarrow> Inl (NilDereference place) | Some v \<Rightarrow> Inr v)"

text \<open>
  The argument \<open>ctx\<close> as \<open>solve\<close> itself uses it: the \<open>nil\<close> interface value, on which
  \<open>ctx.Err()\<close> panics, or a context, given by the value its \<open>Err()\<close> has once the
  search has returned.
\<close>

datatype goContext = NilContext | Context "goError option"

text \<open>
  The calls \<open>solve\<close> makes into the enumeration tree, in order, so that a statement can
  say that a run never reached the search.
\<close>

datatype ('f, 'm) event =
    NewEnumerationTree "('f, 'm) subProblem"
  | StartSearch int

text \<open>
  \<open>solve\<close> of \<open>ilp.go\<close>. Its environment is explicit: \<open>search root workers\<close> is the
  incumbent pointer that \<open>newEnumerationTree(root, instrumentation).startSearch(ctx,
  workers)\<close> returns (\<open>None\<close> is the \<open>nil\<close> pointer), and \<open>feasible\<close> is
  \<open>feasibleForIP\<close>. The result is the trace of calls into the enumeration tree and the
  panic or the returned pair. The search is code outside \<open>ilp.go\<close>: a search that
  panics or does not return makes \<open>solve\<close> do the same, and only a search that returns
  is an input here.
\<close>

definition solve ::
  "(('f::zero, 'm) subProblem \<Rightarrow> int \<Rightarrow> 'f solution option)
   \<Rightarrow> goContext
   \<Rightarrow> (bool list \<Rightarrow> 'f list \<Rightarrow> bool)
   \<Rightarrow> ('f, 'm) milpProblem \<Rightarrow> int
   \<Rightarrow> ('f, 'm) event list \<times> (panic + 'f milpSolution \<times> goError option)" where
  "solve search ctx feasible p workers =
     (if workers \<le> 0
      then ([], Inl (Panic ''number of workers may not be lower than zero''))
      else if length (milpProblem.integralityConstraints p) \<noteq> length (milpProblem.c p)
      then ([], Inl (Panic ''integrality constraints vector is not same length as vector c''))
      else
        let initialRelaxation = toInitialSubProblem p;
            incumbent = search initialRelaxation workers
        in ([NewEnumerationTree initialRelaxation, StartSearch workers],
            (case ctx of
               NilContext \<Rightarrow> Inl (NilDereference ContextValue)
             | Context ctxErr \<Rightarrow>
                 (case ctxErr of
                    Some timedOut \<Rightarrow>
                      (case (if incumbent \<noteq> None
                             then deref IncumbentPointer incumbent
                             else Inr zeroSolution) of
                         Inl crash \<Rightarrow> Inl crash
                       | Inr val \<Rightarrow> Inr (\<lparr>solution = val\<rparr>, Some timedOut))
                  | None \<Rightarrow>
                      if incumbent = None
                      then Inr (zeroMilpSolution, Some NO_INTEGER_FEASIBLE_SOLUTION)
                      else
                        (case deref IncumbentPointer incumbent of
                           Inl crash \<Rightarrow> Inl crash
                         | Inr found \<Rightarrow>
                             if err found \<noteq> None
                             then Inr (zeroMilpSolution, err found)
                             else if \<not> feasible (milpProblem.integralityConstraints p)
                                        (x found)
                             then Inr (zeroMilpSolution, Some NO_INTEGER_FEASIBLE_SOLUTION)
                             else Inr (\<lparr>solution = found\<rparr>, None))))))"

section \<open>Concrete inputs\<close>

text \<open>
  The example of the spec: minimise \<open>x\<^sub>1 + x\<^sub>2\<close> subject to \<open>x\<^sub>1 + x\<^sub>2 \<ge> 1.5\<close>, both
  variables integer; and a problem whose relaxation is already infeasible: minimise \<open>x\<^sub>1\<close>
  subject to \<open>x\<^sub>1 = -1\<close> over the non-negative \<open>x\<^sub>1\<close> of the simplex standard form.
  Matrices are lists of rows here.
\<close>

definition exampleProblem :: "(real, real list list) milpProblem" where
  "exampleProblem =
     \<lparr>milpProblem.c = [1, 1], milpProblem.A = [], milpProblem.b = [],
      milpProblem.G = [[-1, -1]], milpProblem.h = [-3/2],
      milpProblem.integralityConstraints = [True, True], branchingHeuristic = 0\<rparr>"

definition infeasibleProblem :: "(real, real list list) milpProblem" where
  "infeasibleProblem =
     \<lparr>milpProblem.c = [1], milpProblem.A = [[1]], milpProblem.b = [-1],
      milpProblem.G = [], milpProblem.h = [],
      milpProblem.integralityConstraints = [True], branchingHeuristic = 0\<rparr>"

text \<open>A search that reports a given incumbent pointer, whatever the root.\<close>

definition fixedSearch ::
  "'f solution option \<Rightarrow> ('f, 'm) subProblem \<Rightarrow> int \<Rightarrow> 'f solution option" where
  "fixedSearch incumbent rootNode workers = incumbent"

text \<open>
  A relaxation solver that answers \<open>lp.ErrInfeasible\<close>, as the simplex does on
  \<open>infeasibleProblem\<close>, and a branching heuristic that splits the first variable at its
  relaxed value.
\<close>

definition infeasibleRelaxation ::
  "(real, real list list) subProblem \<Rightarrow> goError + real solution" where
  "infeasibleRelaxation node = Inl LpErrInfeasible"

definition branchOnFirst ::
  "real list \<Rightarrow> bool list \<Rightarrow> real bnbConstraint \<times> real bnbConstraint" where
  "branchOnFirst values flags =
     (case values of
        [] \<Rightarrow>
          (\<lparr>branchedVariable = 0, threshold = 0, boundDirection = AtMost\<rparr>,
           \<lparr>branchedVariable = 0, threshold = 0, boundDirection = AtLeast\<rparr>)
      | v # others \<Rightarrow>
          (\<lparr>branchedVariable = 0, threshold = of_int \<lfloor>v\<rfloor>, boundDirection = AtMost\<rparr>,
           \<lparr>branchedVariable = 0, threshold = of_int \<lceil>v\<rceil>, boundDirection = AtLeast\<rparr>))"

text \<open>
  Incumbents for \<open>exampleProblem\<close>: the optimum of its relaxation, which is not
  integer-feasible; an integer optimum; and a solution that carries a failure marker.
\<close>

definition halfSolution :: "real solution" where
  "halfSolution = \<lparr>x = [1/2, 1], z = 3/2, err = None\<rparr>"

definition integerSolution :: "real solution" where
  "integerSolution = \<lparr>x = [1, 1], z = 2, err = None\<rparr>"

definition failedSolution :: "real solution" where
  "failedSolution = \<lparr>x = [1, 1], z = 2, err = Some LpErrUnbounded\<rparr>"

section \<open>The outcome classifications of the spec\<close>

text \<open>
  This definition follows the spec's words, not the code: the five outcome classifications
  the spec lists for the solve entry point, and the classification of a returned call by
  the value of \<open>ctx.Err()\<close> and the error \<open>solve\<close> returned. \<open>solve\<close> is compared
  with it below.
\<close>

datatype outcome =
    Success
  | NoIntegerFeasibleSolution
  | InitialRelaxationInfeasible
  | CancelledWithPartialResult
  | FatalSolverError

fun specOutcome :: "goError option \<Rightarrow> goError option \<Rightarrow> outcome" where
  "specOutcome (Some cause) returned = CancelledWithPartialResult"
| "specOutcome None None = Success"
| "specOutcome None (Some NO_INTEGER_FEASIBLE_SOLUTION) = NoIntegerFeasibleSolution"
| "specOutcome None (Some INITIAL_RELAXATION_NOT_FEASIBLE) = InitialRelaxationInfeasible"
| "specOutcome None (Some failure) = FatalSolverError"

section \<open>The failure classification\<close>

text \<open>
  C1. The static mapping sends the solver's infeasible failure to the degenerate decision
  and the solver's singular failure to the infeasible decision: the two entries are
  crossed with respect to the decisions their names call for.
\<close>

theorem expectedFailures_crossed:
  "expectedFailures LpErrInfeasible = Some SUBPROBLEM_IS_DEGENERATE
   \<and> expectedFailures LpErrSingular = Some SUBPROBLEM_NOT_FEASIBLE
   \<and> expectedFailures LpErrInfeasible \<noteq> Some SUBPROBLEM_NOT_FEASIBLE
   \<and> expectedFailures LpErrSingular \<noteq> Some SUBPROBLEM_IS_DEGENERATE"
  by (simp add: expectedFailures_def)

section \<open>The root subproblem\<close>

text \<open>
  C3. The root subproblem of any problem has identifier 0, no bound constraints, and the
  problem's objective, equality data, inequality data and integrality flags unchanged.
\<close>

theorem toInitialSubProblem_root:
  "id' (toInitialSubProblem p) = 0
   \<and> bnbConstraints (toInitialSubProblem p) = []
   \<and> subProblem.c (toInitialSubProblem p) = milpProblem.c p
   \<and> subProblem.A (toInitialSubProblem p) = milpProblem.A p
   \<and> subProblem.b (toInitialSubProblem p) = milpProblem.b p
   \<and> subProblem.G (toInitialSubProblem p) = milpProblem.G p
   \<and> subProblem.h (toInitialSubProblem p) = milpProblem.h p
   \<and> subProblem.integralityConstraints (toInitialSubProblem p)
       = milpProblem.integralityConstraints p"
  by (simp add: toInitialSubProblem_def)

section \<open>Usage errors\<close>

text \<open>
  C2. A call of \<open>solve\<close> with a worker count of at most 0, or with an integrality-flag
  sequence whose length differs from the objective's, panics at once: the trace of calls
  into the enumeration tree is empty (no root subproblem was handed over, no search was
  started) and no solution is returned.
\<close>

theorem solve_usage_error_panics:
  assumes "workers \<le> 0
    \<or> length (milpProblem.integralityConstraints p) \<noteq> length (milpProblem.c p)"
  shows "solve search ctx feasible p workers =
    ([], Inl (Panic (if workers \<le> 0
                     then ''number of workers may not be lower than zero''
                     else ''integrality constraints vector is not same length as vector c'')))"
  using assms by (auto simp add: solve_def)

theorem solve_usage_error_panics_witness:
  "solve (fixedSearch None) (Context None) (feasibleForIP (1/1000000)) exampleProblem 0 =
     ([], Inl (Panic ''number of workers may not be lower than zero''))
   \<and> solve (fixedSearch None) (Context None) (feasibleForIP (1/1000000))
        (exampleProblem\<lparr>milpProblem.integralityConstraints := [True]\<rparr>) 1 =
     ([], Inl (Panic ''integrality constraints vector is not same length as vector c''))
   \<and> solve (fixedSearch None) NilContext (feasibleForIP (1/1000000)) exampleProblem 0 =
     ([], Inl (Panic ''number of workers may not be lower than zero''))"
  using solve_usage_error_panics [of 0 exampleProblem "fixedSearch None" "Context None"
          "feasibleForIP (1/1000000)"]
        solve_usage_error_panics [of 1
          "exampleProblem\<lparr>milpProblem.integralityConstraints := [True]\<rparr>"
          "fixedSearch None" "Context None" "feasibleForIP (1/1000000)"]
        solve_usage_error_panics [of 0 exampleProblem "fixedSearch None" NilContext
          "feasibleForIP (1/1000000)"]
  by (simp add: exampleProblem_def)

section \<open>Cancellation\<close>

text \<open>
  C4. When \<open>ctx.Err()\<close> is non-nil once the search has returned, \<open>solve\<close> returns the
  incumbent the search produced (the zero-value solution when there is none) together
  with that non-nil error; the returned error is never \<open>nil\<close>.
\<close>

theorem solve_cancelled:
  assumes "0 < workers"
    and "length (milpProblem.integralityConstraints p) = length (milpProblem.c p)"
  shows "snd (solve search (Context (Some timedOut)) feasible p workers) =
    Inr (\<lparr>solution = (case search (toInitialSubProblem p) workers of
                         None \<Rightarrow> zeroSolution
                       | Some found \<Rightarrow> found)\<rparr>,
         Some timedOut)"
  using assms by (simp add: solve_def deref_def Let_def split: option.split)

theorem solve_cancelled_witness:
  "snd (solve (fixedSearch (Some integerSolution)) (Context (Some ContextDeadlineExceeded))
          (feasibleForIP (1/1000000)) exampleProblem 2) =
     Inr (\<lparr>solution = integerSolution\<rparr>, Some ContextDeadlineExceeded)
   \<and> snd (solve (fixedSearch None) (Context (Some ContextCanceled))
          (feasibleForIP (1/1000000)) exampleProblem 2) =
     Inr (\<lparr>solution = zeroSolution\<rparr>, Some ContextCanceled)"
  using solve_cancelled [of 2 exampleProblem "fixedSearch (Some integerSolution)"
          ContextDeadlineExceeded "feasibleForIP (1/1000000)"]
        solve_cancelled [of 2 exampleProblem "fixedSearch None"
          ContextCanceled "feasibleForIP (1/1000000)"]
  by (simp add: exampleProblem_def fixedSearch_def)

text \<open>
  C9. A cancelled run whose search produced no incumbent returns the zero-value solution
  and the cancellation error; and no call of \<open>solve\<close> whatever, with any context, ends
  in the panic of a \<open>nil\<close> dereference of the incumbent pointer, since every read
  through that pointer follows its \<open>nil\<close> check.
\<close>

theorem solve_cancelled_without_incumbent:
  assumes "0 < workers"
    and "length (milpProblem.integralityConstraints p) = length (milpProblem.c p)"
    and "search (toInitialSubProblem p) workers = None"
  shows "snd (solve search (Context (Some timedOut)) feasible p workers) =
      Inr (\<lparr>solution = zeroSolution\<rparr>, Some timedOut)
    \<and> snd (solve anySearch anyContext feasible anyProblem anyWorkers)
        \<noteq> Inl (NilDereference IncumbentPointer)"
  using assms
  by (simp add: solve_def deref_def Let_def split: option.split goContext.split)

theorem solve_cancelled_without_incumbent_witness:
  "snd (solve (fixedSearch None) (Context (Some ContextCanceled)) (feasibleForIP (1/1000000))
          exampleProblem 4) =
     Inr (\<lparr>solution = zeroSolution\<rparr>, Some ContextCanceled)"
  using solve_cancelled_without_incumbent [where workers = 4 and p = exampleProblem
          and search = "fixedSearch None" and timedOut = ContextCanceled
          and feasible = "feasibleForIP (1/1000000)" and anySearch = "fixedSearch None"
          and anyContext = NilContext and anyProblem = exampleProblem and anyWorkers = 4]
  by (simp add: exampleProblem_def fixedSearch_def)

section \<open>Result assembly without cancellation\<close>

text \<open>
  C5. A run that is not cancelled and whose search returns no incumbent reports
  \<open>NO_INTEGER_FEASIBLE_SOLUTION\<close>.
\<close>

theorem solve_no_incumbent:
  assumes "0 < workers"
    and "length (milpProblem.integralityConstraints p) = length (milpProblem.c p)"
    and "search (toInitialSubProblem p) workers = None"
  shows "snd (solve search (Context None) feasible p workers) =
    Inr (zeroMilpSolution, Some NO_INTEGER_FEASIBLE_SOLUTION)"
  using assms by (simp add: solve_def Let_def)

theorem solve_no_incumbent_witness:
  "snd (solve (fixedSearch None) (Context None) (feasibleForIP (1/1000000))
          exampleProblem 1) =
     Inr (zeroMilpSolution, Some NO_INTEGER_FEASIBLE_SOLUTION)"
  using solve_no_incumbent [of 1 exampleProblem "fixedSearch None"
          "feasibleForIP (1/1000000)"]
  by (simp add: exampleProblem_def fixedSearch_def)

text \<open>
  C6. A run that is not cancelled, whose incumbent carries no failure marker and whose
  assignment vector fails the integrality check against the problem's own flags, reports
  \<open>NO_INTEGER_FEASIBLE_SOLUTION\<close> and does not return the incumbent.
\<close>

theorem solve_revalidation_fails:
  assumes "0 < workers"
    and "length (milpProblem.integralityConstraints p) = length (milpProblem.c p)"
    and "search (toInitialSubProblem p) workers = Some found"
    and "err found = None"
    and "\<not> feasible (milpProblem.integralityConstraints p) (x found)"
  shows "snd (solve search (Context None) feasible p workers) =
    Inr (zeroMilpSolution, Some NO_INTEGER_FEASIBLE_SOLUTION)"
  using assms by (simp add: solve_def deref_def Let_def)

theorem solve_revalidation_fails_witness:
  "snd (solve (fixedSearch (Some halfSolution)) (Context None) (feasibleForIP (1/1000000))
          exampleProblem 1) =
     Inr (zeroMilpSolution, Some NO_INTEGER_FEASIBLE_SOLUTION)"
  using solve_revalidation_fails [of 1 exampleProblem "fixedSearch (Some halfSolution)"
          halfSolution "feasibleForIP (1/1000000)"]
  by (simp add: exampleProblem_def fixedSearch_def halfSolution_def feasibleForIP_def
        round_def)

text \<open>
  C10. Whenever \<open>solve\<close> returns a \<open>nil\<close> error, the returned solution is the
  incumbent of the search and its assignment vector passes the integrality check against
  the problem's own flags.
\<close>

theorem solve_success_is_integer_feasible:
  assumes "snd (solve search ctx feasible p workers) = Inr (accepted, None)"
  shows "feasible (milpProblem.integralityConstraints p) (x (solution accepted))
    \<and> search (toInitialSubProblem p) workers = Some (solution accepted)"
  using assms
  by (auto simp add: solve_def deref_def Let_def
      split: if_splits option.splits goContext.splits)

theorem solve_success_is_integer_feasible_witness:
  "snd (solve (fixedSearch (Some integerSolution)) (Context None) (feasibleForIP (1/1000000))
          exampleProblem 1) = Inr (\<lparr>solution = integerSolution\<rparr>, None)
   \<and> feasibleForIP (1/1000000) (milpProblem.integralityConstraints exampleProblem)
        (x (solution \<lparr>solution = integerSolution\<rparr>))"
proof -
  have run: "snd (solve (fixedSearch (Some integerSolution)) (Context None)
          (feasibleForIP (1/1000000)) exampleProblem 1)
        = Inr (\<lparr>solution = integerSolution\<rparr>, None)"
    by (simp add: solve_def deref_def Let_def exampleProblem_def fixedSearch_def
        integerSolution_def feasibleForIP_def round_def toInitialSubProblem_def)
  from solve_success_is_integer_feasible [OF run] run show ?thesis by simp
qed

section \<open>An infeasible root relaxation\<close>

text \<open>
  \<open>solve\<close> has no branch of its own that returns \<open>INITIAL_RELAXATION_NOT_FEASIBLE\<close>: it
  can only hand on that error when \<open>ctx.Err()\<close> or the incumbent's failure marker
  already is it.
\<close>

lemma solve_hands_on_initial_relaxation_error:
  assumes "snd (solve search ctx feasible p workers) =
    Inr (returned, Some INITIAL_RELAXATION_NOT_FEASIBLE)"
  shows "ctx = Context (Some INITIAL_RELAXATION_NOT_FEASIBLE)
    \<or> (\<exists>found. search (toInitialSubProblem p) workers = Some found
          \<and> err found = Some INITIAL_RELAXATION_NOT_FEASIBLE)"
  using assms
  by (auto simp add: solve_def deref_def Let_def
      split: if_splits option.splits goContext.splits)

text \<open>
  C7. When the relaxation of the root is infeasible, the search, given fuel for one node,
  prunes the root as an expected failure and ends with no incumbent; \<open>solve\<close>, run
  with a search that returns what this search returns, then reports
  \<open>NO_INTEGER_FEASIBLE_SOLUTION\<close>, the generic outcome, not the dedicated
  \<open>INITIAL_RELAXATION_NOT_FEASIBLE\<close>.
\<close>

theorem root_infeasible_reported_as_no_integer_solution:
  assumes "0 < workers"
    and "length (milpProblem.integralityConstraints p) = length (milpProblem.c p)"
    and "solveRelaxation (toInitialSubProblem p) = Inl LpErrInfeasible"
    and "startSearch solveRelaxation branchOn feasible (Suc fuel) (toInitialSubProblem p)
           workers = Some (search (toInitialSubProblem p) workers)"
  shows "startSearch solveRelaxation branchOn feasible (Suc fuel) (toInitialSubProblem p)
        workers = Some None
    \<and> snd (solve search (Context None) feasible p workers)
      = Inr (zeroMilpSolution, Some NO_INTEGER_FEASIBLE_SOLUTION)"
proof -
  have pruned: "startSearch solveRelaxation branchOn feasible (Suc fuel)
      (toInitialSubProblem p) workers = Some None"
    using assms(3) by (simp add: startSearch_def expectedFailures_def)
  with assms(4) have "search (toInitialSubProblem p) workers = None"
    by simp
  with assms(1,2) have "snd (solve search (Context None) feasible p workers)
      = Inr (zeroMilpSolution, Some NO_INTEGER_FEASIBLE_SOLUTION)"
    by (simp add: solve_def Let_def)
  with pruned show ?thesis by simp
qed

theorem root_infeasible_reported_as_no_integer_solution_witness:
  "startSearch infeasibleRelaxation branchOnFirst (feasibleForIP (1/1000000)) (Suc 0)
      (toInitialSubProblem infeasibleProblem) 1 = Some None
   \<and> snd (solve (fixedSearch None) (Context None) (feasibleForIP (1/1000000))
          infeasibleProblem 1)
      = Inr (zeroMilpSolution, Some NO_INTEGER_FEASIBLE_SOLUTION)"
proof -
  have searched: "startSearch infeasibleRelaxation branchOnFirst (feasibleForIP (1/1000000))
      (Suc 0) (toInitialSubProblem infeasibleProblem) 1
    = Some (fixedSearch None (toInitialSubProblem infeasibleProblem) 1)"
    by (simp add: startSearch_def infeasibleRelaxation_def expectedFailures_def
        fixedSearch_def)
  show ?thesis
    using root_infeasible_reported_as_no_integer_solution [of 1 infeasibleProblem
            infeasibleRelaxation branchOnFirst "feasibleForIP (1/1000000)" 0
            "fixedSearch None", OF _ _ _ searched]
    by (simp add: infeasibleProblem_def infeasibleRelaxation_def)
qed

section \<open>The outcomes of \<open>solve\<close>\<close>

text \<open>
  C8, as stated, fails: in a run that is not cancelled, an incumbent with a failure marker
  and an incumbent that fails the integrality check both exist with a non-empty
  assignment, and \<open>solve\<close> returns the zero-value solution, whose assignment is empty.
\<close>

theorem solve_error_outcomes_drop_incumbent:
  "snd (solve (fixedSearch (Some failedSolution)) (Context None) (feasibleForIP (1/1000000))
          exampleProblem 1) = Inr (zeroMilpSolution, Some LpErrUnbounded)
   \<and> snd (solve (fixedSearch (Some halfSolution)) (Context None) (feasibleForIP (1/1000000))
          exampleProblem 1) = Inr (zeroMilpSolution, Some NO_INTEGER_FEASIBLE_SOLUTION)
   \<and> x (solution (zeroMilpSolution :: real milpSolution)) = []
   \<and> x failedSolution = [1, 1]
   \<and> x halfSolution = [1/2, 1]"
  by (simp add: solve_def deref_def Let_def exampleProblem_def fixedSearch_def
        failedSolution_def halfSolution_def feasibleForIP_def round_def
        zeroMilpSolution_def zeroSolution_def)

text \<open>
  Not every call that passes the argument checks returns: with a \<open>nil\<close> context the
  search is started and \<open>ctx.Err()\<close> then panics.
\<close>

lemma solve_nil_context_panics:
  assumes "0 < workers"
    and "length (milpProblem.integralityConstraints p) = length (milpProblem.c p)"
  shows "solve search NilContext feasible p workers =
    ([NewEnumerationTree (toInitialSubProblem p), StartSearch workers],
     Inl (NilDereference ContextValue))"
  using assms by (simp add: solve_def Let_def)

lemma specOutcome_marker:
  "specOutcome None (Some marker) =
     (if marker = NO_INTEGER_FEASIBLE_SOLUTION then NoIntegerFeasibleSolution
      else if marker = INITIAL_RELAXATION_NOT_FEASIBLE then InitialRelaxationInfeasible
      else FatalSolverError)"
  by (cases marker) simp_all

text \<open>
  C8, amended. Every outcome that \<open>solve\<close> returns is exactly one of the five
  classifications, and which one it is, the returned error and the returned solution are
  fixed by the run: a returned call had passed both argument checks and had a context;
  when \<open>ctx.Err()\<close> is non-nil the outcome is the cancelled one, with that error and the
  incumbent of the search (the zero-value solution when there is none); otherwise it is
  the success outcome, with the incumbent, exactly when the incumbent exists, carries no
  failure marker and passes the integrality check, and in every other case it is the
  no-integer-feasible-solution, the root-relaxation-infeasible or the fatal-solver-error
  outcome, with the zero-value solution, also when an incumbent exists.
\<close>

theorem solve_outcomes:
  assumes "snd (solve search ctx feasible p workers) = Inr (returned, failure)"
  shows "0 < workers
    \<and> length (milpProblem.integralityConstraints p) = length (milpProblem.c p)
    \<and> (\<exists>ctxErr. ctx = Context ctxErr
         \<and> (case ctxErr of
              Some cause \<Rightarrow>
                specOutcome ctxErr failure = CancelledWithPartialResult
                \<and> failure = Some cause
                \<and> solution returned = (case search (toInitialSubProblem p) workers of
                                         None \<Rightarrow> zeroSolution
                                       | Some found \<Rightarrow> found)
            | None \<Rightarrow>
                (case search (toInitialSubProblem p) workers of
                   None \<Rightarrow>
                     specOutcome ctxErr failure = NoIntegerFeasibleSolution
                     \<and> failure = Some NO_INTEGER_FEASIBLE_SOLUTION
                     \<and> returned = zeroMilpSolution
                 | Some found \<Rightarrow>
                     (case err found of
                        Some marker \<Rightarrow>
                          specOutcome ctxErr failure =
                            (if marker = NO_INTEGER_FEASIBLE_SOLUTION
                             then NoIntegerFeasibleSolution
                             else if marker = INITIAL_RELAXATION_NOT_FEASIBLE
                             then InitialRelaxationInfeasible
                             else FatalSolverError)
                          \<and> failure = Some marker
                          \<and> returned = zeroMilpSolution
                      | None \<Rightarrow>
                          if feasible (milpProblem.integralityConstraints p) (x found)
                          then specOutcome ctxErr failure = Success
                               \<and> failure = None
                               \<and> returned = \<lparr>solution = found\<rparr>
                          else specOutcome ctxErr failure = NoIntegerFeasibleSolution
                               \<and> failure = Some NO_INTEGER_FEASIBLE_SOLUTION
                               \<and> returned = zeroMilpSolution))))"
proof -
  from assms have checks: "0 < workers"
      "length (milpProblem.integralityConstraints p) = length (milpProblem.c p)"
    by (auto simp add: solve_def split: if_splits)
  from assms checks obtain ctxErr where given: "ctx = Context ctxErr"
    by (cases ctx) (auto simp add: solve_def Let_def)
  show ?thesis
  proof (cases ctxErr)
    case (Some cause)
    with assms checks given show ?thesis
      by (auto simp add: solve_def deref_def Let_def split: option.splits)
  next
    case None
    show ?thesis
    proof (cases "search (toInitialSubProblem p) workers")
      case noIncumbent: None
      with assms checks given None show ?thesis
        by (auto simp add: solve_def Let_def)
    next
      case incumbent: (Some found)
      show ?thesis
      proof (cases "err found")
        case unmarked: None
        with assms checks given None incumbent show ?thesis
          by (auto simp add: solve_def deref_def Let_def)
      next
        case marked: (Some marker)
        with assms checks given None incumbent
        have "failure = Some marker" and "returned = zeroMilpSolution"
          by (auto simp add: solve_def deref_def Let_def)
        with checks given None incumbent marked show ?thesis
          by (simp add: specOutcome_marker del: specOutcome.simps)
      qed
    qed
  qed
qed

theorem solve_outcomes_witness:
  "snd (solve (fixedSearch (Some failedSolution)) (Context None) (feasibleForIP (1/1000000))
          exampleProblem 1) = Inr (zeroMilpSolution, Some LpErrUnbounded)
   \<and> specOutcome None (Some LpErrUnbounded) = FatalSolverError
   \<and> snd (solve (fixedSearch (Some integerSolution)) (Context None)
          (feasibleForIP (1/1000000)) exampleProblem 1)
        = Inr (\<lparr>solution = integerSolution\<rparr>, None)
   \<and> specOutcome None None = Success"
proof -
  have failed: "snd (solve (fixedSearch (Some failedSolution)) (Context None)
          (feasibleForIP (1/1000000)) exampleProblem 1)
        = Inr (zeroMilpSolution, Some LpErrUnbounded)"
    by (simp add: solve_def deref_def Let_def exampleProblem_def fixedSearch_def
        failedSolution_def)
  have accepted: "snd (solve (fixedSearch (Some integerSolution)) (Context None)
          (feasibleForIP (1/1000000)) exampleProblem 1)
        = Inr (\<lparr>solution = integerSolution\<rparr>, None)"
    by (simp add: solve_def deref_def Let_def exampleProblem_def fixedSearch_def
        integerSolution_def feasibleForIP_def round_def toInitialSubProblem_def)
  from solve_outcomes [OF failed] solve_outcomes [OF accepted] failed accepted
  show ?thesis
    by (simp add: fixedSearch_def failedSolution_def integerSolution_def)
qed

end
